theory Spec2Isabelle
  imports Main
begin

section \<open>internal/service/identity\_config.go\<close>

subsection \<open>The process environment and \<^verbatim>\<open>strconv.Atoi\<close>\<close>

text \<open>
  \<^verbatim>\<open>os.Getenv\<close> returns the value of a variable, and the empty string when the
  variable is not set. The environment is a map from names to values.
\<close>

type_synonym environ = "string \<rightharpoonup> string"

definition Getenv :: "environ \<Rightarrow> string \<Rightarrow> string" where
  "Getenv env k = (case env k of None \<Rightarrow> [] | Some v \<Rightarrow> v)"

text \<open>
  \<^verbatim>\<open>strconv.Atoi\<close> of the Go standard library, for a 64-bit \<^verbatim>\<open>int\<close>: an optional
  sign followed by at least one decimal digit. Anything else is a syntax error with
  value 0; a well-formed numeral outside the 64-bit range is a range error with the
  nearest representable value. The result is the pair the Go function returns.
\<close>

datatype NumError = ErrSyntax | ErrRange

definition isDigit :: "char \<Rightarrow> bool" where
  "isDigit c = (48 \<le> (of_char c :: int) \<and> (of_char c :: int) \<le> 57)"

fun digitsValue :: "int \<Rightarrow> string \<Rightarrow> int" where
  "digitsValue n [] = n"
| "digitsValue n (ch # s) = digitsValue (n * 10 + (of_char ch - 48)) s"

definition ParseUintSyntax :: "string \<Rightarrow> bool" where
  "ParseUintSyntax s = (s \<noteq> [] \<and> list_all isDigit s)"

definition Atoi :: "string \<Rightarrow> int \<times> NumError option" where
  "Atoi s0 =
    (if s0 = [] then (0, Some ErrSyntax)
     else
       let neg = (hd s0 = CHR ''-'');
           s = (if hd s0 = CHR ''+'' \<or> hd s0 = CHR ''-'' then tl s0 else s0)
       in if \<not> ParseUintSyntax s then (0, Some ErrSyntax)
          else
            let un = digitsValue 0 s;
                cutoff = (2 :: int) ^ 63
            in if \<not> neg \<and> un \<ge> cutoff then (cutoff - 1, Some ErrRange)
               else if neg \<and> un > cutoff then (- cutoff, Some ErrRange)
               else (if neg then - un else un, None))"

text \<open>
  The numerals: an optional sign followed by at least one decimal digit. This is the
  syntax \<^verbatim>\<open>strconv.Atoi\<close> accepts, stated on its own.
\<close>

definition isInteger :: "string \<Rightarrow> bool" where
  "isInteger s =
    (case s of
       [] \<Rightarrow> False
     | c # cs \<Rightarrow> if c = CHR ''+'' \<or> c = CHR ''-'' then cs \<noteq> [] \<and> list_all isDigit cs
                 else list_all isDigit s)"

subsection \<open>The configuration and its functional options\<close>

record IdentityConfig =
  host :: string
  port :: int
  user :: string
  pass :: string

type_synonym ConfigOpts = "IdentityConfig \<Rightarrow> IdentityConfig"

definition WithHost :: "string \<Rightarrow> ConfigOpts" where
  "WithHost h = (\<lambda>cfg. cfg\<lparr>host := h\<rparr>)"

definition WithPort :: "int \<Rightarrow> ConfigOpts" where
  "WithPort p = (\<lambda>cfg. cfg\<lparr>port := p\<rparr>)"

definition WithUser :: "string \<Rightarrow> ConfigOpts" where
  "WithUser u = (\<lambda>cfg. cfg\<lparr>user := u\<rparr>)"

definition WithPass :: "string \<Rightarrow> ConfigOpts" where
  "WithPass p = (\<lambda>cfg. cfg\<lparr>pass := p\<rparr>)"

text \<open>The loop \<^verbatim>\<open>for _, opt := range opts { cfg = opt(cfg) }\<close>.\<close>

fun applyOpts :: "IdentityConfig \<Rightarrow> ConfigOpts list \<Rightarrow> IdentityConfig" where
  "applyOpts cfg [] = cfg"
| "applyOpts cfg (opt # opts) = applyOpts (opt cfg) opts"

definition defaultConfig :: IdentityConfig where
  "defaultConfig = \<lparr>host = ''127.0.0.1'', port = 8080, user = ''John'', pass = ''VMw@re1!''\<rparr>"

definition NewIdentityConfig :: "environ \<Rightarrow> ConfigOpts list \<Rightarrow> IdentityConfig" where
  "NewIdentityConfig env opts =
    (let cfg = defaultConfig;
         h = Getenv env ''IDM_HOST'';
         cfg = (if h \<noteq> [] then cfg\<lparr>host := h\<rparr> else cfg);
         p = Getenv env ''IDM_PORT'';
         cfg = (if p \<noteq> [] then cfg\<lparr>port := fst (Atoi p)\<rparr> else cfg);
         u = Getenv env ''IDM_USER'';
         cfg = (if u \<noteq> [] then cfg\<lparr>user := u\<rparr> else cfg);
         pw = Getenv env ''IDM_PASS'';
         cfg = (if pw \<noteq> [] then cfg\<lparr>pass := pw\<rparr> else cfg)
     in applyOpts cfg opts)"


section \<open>The external identity service client\<close>

subsection \<open>Errors, HTTP messages and the observable events\<close>

text \<open>
  Go errors are values. The constructors name where an error was produced;
  \<^verbatim>\<open>errors.IsNotFound\<close> recognises the store's not-found answer.
\<close>

datatype error =
    NotFound
  | StoreError string
  | MarshalError string
  | RequestError string
  | TransportError string
  | ReadError string
  | UnmarshalError string

definition IsNotFound :: "error \<Rightarrow> bool" where
  "IsNotFound e = (case e of NotFound \<Rightarrow> True | _ \<Rightarrow> False)"

text \<open>
  Modelled from the spec: the declaration of \<^verbatim>\<open>api/v1.User\<close> is not part of the
  sources at hand. Its fields are those the controller reads and writes and those the
  spec lists: \<open>Spec = {name, firstname, lastname, role, age, password}\<close>,
  \<open>Status = {externalID, state}\<close>, a deletion timestamp and the finalizers.
\<close>

record UserSpec =
  Name :: string
  Password :: string
  Firstname :: string
  Lastname :: string
  Role :: string
  Age :: int

record UserStatus =
  ID :: string
  State :: string

record User =
  DeletionTimestamp :: "int option"
  Finalizers :: "string list"
  Spec :: UserSpec
  Status :: UserStatus

text \<open>\<^verbatim>\<open>(*metav1.Time).IsZero\<close>: a nil pointer or the zero instant.\<close>

definition IsZero :: "int option \<Rightarrow> bool" where
  "IsZero t = (case t of None \<Rightarrow> True | Some n \<Rightarrow> n = 0)"

record IdentityUser =
  ID :: string
  Name :: string
  Password :: string
  Firstname :: string
  Lastname :: string
  Role :: string
  Age :: int

record LoginRequestBody =
  Name :: string
  Password :: string

record LoginResponse =
  Token :: string

record IdentityService =
  config :: IdentityConfig
  token :: string

text \<open>
  An HTTP request as the client builds it, and the part of a response the client can
  look at: the status code and what \<^verbatim>\<open>io.ReadAll(resp.Body)\<close> yields.
\<close>

record HttpRequest =
  Method :: string
  URL :: string
  Header :: "(string \<times> string) list"
  ReqBody :: "string option"

record HttpResponse =
  StatusCode :: int
  Body :: "error + string"

type_synonym NamespacedName = "string \<times> string"

text \<open>
  What an invocation does to the outside: reads and writes of the store, and HTTP
  round trips. Log lines are not recorded.
\<close>

datatype event =
    EvGet NamespacedName
  | EvUpdate User
  | EvStatusUpdate User
  | EvDo HttpRequest

text \<open>
  Everything outside the program: the process environment, the store (the answer to
  \<^verbatim>\<open>r.Get\<close> and whether it accepts \<^verbatim>\<open>r.Update\<close> and \<^verbatim>\<open>r.Status().Update\<close>), the
  external service (the answer of \<^verbatim>\<open>client.Do\<close> to a request, which may depend on
  the events before it), and the library functions \<^verbatim>\<open>http.NewRequest\<close>,
  \<^verbatim>\<open>json.Marshal\<close> and \<^verbatim>\<open>json.Unmarshal\<close>, each of which may fail.
\<close>

record world =
  Environ :: environ
  Get :: "NamespacedName \<Rightarrow> error + User"
  StoreUpdate :: "User \<Rightarrow> error option"
  StoreStatusUpdate :: "User \<Rightarrow> error option"
  NewRequest :: "string \<Rightarrow> string \<Rightarrow> error option"
  Do :: "event list \<Rightarrow> HttpRequest \<Rightarrow> error + HttpResponse"
  MarshalLogin :: "LoginRequestBody \<Rightarrow> error + string"
  MarshalSpec :: "UserSpec \<Rightarrow> error + string"
  UnmarshalLogin :: "string \<Rightarrow> error + LoginResponse"
  UnmarshalUser :: "string \<Rightarrow> error + IdentityUser"

subsection \<open>\<^verbatim>\<open>strconv.Itoa\<close> and the request URLs\<close>

definition digitChar :: "nat \<Rightarrow> char" where
  "digitChar d =
     (if d = 0 then CHR ''0'' else if d = 1 then CHR ''1'' else if d = 2 then CHR ''2''
      else if d = 3 then CHR ''3'' else if d = 4 then CHR ''4'' else if d = 5 then CHR ''5''
      else if d = 6 then CHR ''6'' else if d = 7 then CHR ''7'' else if d = 8 then CHR ''8''
      else CHR ''9'')"

fun natDigits :: "nat \<Rightarrow> string" where
  "natDigits n =
     (if n < 10 then [digitChar n]
      else natDigits (n div 10) @ [digitChar (n mod 10)])"

declare natDigits.simps [simp del]

definition Itoa :: "int \<Rightarrow> string" where
  "Itoa i = (if i < 0 then CHR ''-'' # natDigits (nat (- i)) else natDigits (nat i))"

definition baseURL :: "IdentityService \<Rightarrow> string" where
  "baseURL s = ''http://'' @ host (config s) @ '':'' @ Itoa (port (config s))"

definition NewIdentityService :: "IdentityConfig \<Rightarrow> IdentityService" where
  "NewIdentityService cfg = \<lparr>config = cfg, token = []\<rparr>"

subsection \<open>The five operations\<close>

text \<open>
  Each operation takes the trace of events so far and returns it extended. A request
  is recorded when \<^verbatim>\<open>client.Do\<close> is called, whatever the answer.
\<close>

definition GetToken ::
  "world \<Rightarrow> IdentityService \<Rightarrow> event list \<Rightarrow> (error + string) \<times> IdentityService \<times> event list" where
  "GetToken w s tr =
    (let url = baseURL s @ ''/login'';
         reqBody = \<lparr>LoginRequestBody.Name = user (config s), Password = pass (config s)\<rparr>
     in case MarshalLogin w reqBody of
          Inl e \<Rightarrow> (Inl e, s, tr)
        | Inr jsonReqBody \<Rightarrow>
           (case NewRequest w ''POST'' url of
              Some e \<Rightarrow> (Inl e, s, tr)
            | None \<Rightarrow>
               let req = \<lparr>Method = ''POST'', URL = url, Header = [], ReqBody = Some jsonReqBody\<rparr>;
                   tr' = tr @ [EvDo req]
               in (case Do w tr req of
                     Inl e \<Rightarrow> (Inl e, s, tr')
                   | Inr resp \<Rightarrow>
                      (case Body resp of
                         Inl e \<Rightarrow> (Inl e, s, tr')
                       | Inr body \<Rightarrow>
                          (case UnmarshalLogin w body of
                             Inl e \<Rightarrow> (Inl e, s, tr')
                           | Inr loginResponse \<Rightarrow>
                              (Inr (Token loginResponse),
                               s\<lparr>token := Token loginResponse\<rparr>, tr'))))))"

definition CreateUser ::
  "world \<Rightarrow> IdentityService \<Rightarrow> UserSpec \<Rightarrow> event list \<Rightarrow> (error + IdentityUser) \<times> event list" where
  "CreateUser w s spec tr =
    (let url = baseURL s @ ''/users''
     in case MarshalSpec w spec of
          Inl e \<Rightarrow> (Inl e, tr)
        | Inr body \<Rightarrow>
           (case NewRequest w ''POST'' url of
              Some e \<Rightarrow> (Inl e, tr)
            | None \<Rightarrow>
               let req = \<lparr>Method = ''POST'', URL = url,
                          Header = [(''Authorization'', ''Bearer '' @ token s),
                                    (''Content-Type'', ''application/json'')],
                          ReqBody = Some body\<rparr>;
                   tr' = tr @ [EvDo req]
               in (case Do w tr req of
                     Inl e \<Rightarrow> (Inl e, tr')
                   | Inr resp \<Rightarrow>
                      (case Body resp of
                         Inl e \<Rightarrow> (Inl e, tr')
                       | Inr body \<Rightarrow>
                          (case UnmarshalUser w body of
                             Inl e \<Rightarrow> (Inl e, tr')
                           | Inr userResponse \<Rightarrow> (Inr userResponse, tr'))))))"

definition GetUser ::
  "world \<Rightarrow> IdentityService \<Rightarrow> string \<Rightarrow> event list \<Rightarrow> (error + IdentityUser) \<times> event list" where
  "GetUser w s userID tr =
    (let url = baseURL s @ ''/users/'' @ userID
     in case NewRequest w ''GET'' url of
          Some e \<Rightarrow> (Inl e, tr)
        | None \<Rightarrow>
           let req = \<lparr>Method = ''GET'', URL = url,
                      Header = [(''Authorization'', ''Bearer '' @ token s),
                                (''Accept'', ''application/json'')],
                      ReqBody = None\<rparr>;
               tr' = tr @ [EvDo req]
           in (case Do w tr req of
                 Inl e \<Rightarrow> (Inl e, tr')
               | Inr resp \<Rightarrow>
                  (case Body resp of
                     Inl e \<Rightarrow> (Inl e, tr')
                   | Inr body \<Rightarrow>
                      (case UnmarshalUser w body of
                         Inl e \<Rightarrow> (Inl e, tr')
                       | Inr userResponse \<Rightarrow> (Inr userResponse, tr')))))"

definition DeleteUser ::
  "world \<Rightarrow> IdentityService \<Rightarrow> string \<Rightarrow> event list \<Rightarrow> error option \<times> event list" where
  "DeleteUser w s userID tr =
    (let url = baseURL s @ ''/users/'' @ userID
     in case NewRequest w ''DELETE'' url of
          Some e \<Rightarrow> (Some e, tr)
        | None \<Rightarrow>
           let req = \<lparr>Method = ''DELETE'', URL = url,
                      Header = [(''Authorization'', ''Bearer '' @ token s)],
                      ReqBody = None\<rparr>;
               tr' = tr @ [EvDo req]
           in (case Do w tr req of
                 Inl e \<Rightarrow> (Some e, tr')
               | Inr resp \<Rightarrow> (None, tr')))"

definition UpdateUser ::
  "world \<Rightarrow> IdentityService \<Rightarrow> string \<Rightarrow> UserSpec \<Rightarrow> event list
     \<Rightarrow> (error + IdentityUser) \<times> event list" where
  "UpdateUser w s userID spec tr =
    (let url = baseURL s @ ''/users/'' @ userID
     in case MarshalSpec w spec of
          Inl e \<Rightarrow> (Inl e, tr)
        | Inr body \<Rightarrow>
           (case NewRequest w ''PUT'' url of
              Some e \<Rightarrow> (Inl e, tr)
            | None \<Rightarrow>
               let req = \<lparr>Method = ''PUT'', URL = url,
                          Header = [(''Authorization'', ''Bearer '' @ token s),
                                    (''Content-Type'', ''application/json'')],
                          ReqBody = Some body\<rparr>;
                   tr' = tr @ [EvDo req]
               in (case Do w tr req of
                     Inl e \<Rightarrow> (Inl e, tr')
                   | Inr resp \<Rightarrow>
                      (case Body resp of
                         Inl e \<Rightarrow> (Inl e, tr')
                       | Inr body \<Rightarrow>
                          (case UnmarshalUser w body of
                             Inl e \<Rightarrow> (Inl e, tr')
                           | Inr userResponse \<Rightarrow> (Inr userResponse, tr'))))))"


section \<open>The controller\<close>

definition userFinalizer :: string where
  "userFinalizer = ''micze.io/user-finalizer''"

fun containsString :: "string list \<Rightarrow> string \<Rightarrow> bool" where
  "containsString [] s = False"
| "containsString (item # slice) s = (if item = s then True else containsString slice s)"

fun removeString :: "string list \<Rightarrow> string \<Rightarrow> string list" where
  "removeString [] s = []"
| "removeString (item # slice) s =
     (if item \<noteq> s then item # removeString slice s else removeString slice s)"

subsection \<open>The helpers around the client\<close>

text \<open>
  Every helper resolves the configuration from the environment, builds a fresh
  service, logs in, and only then makes its call.
\<close>

definition finalizeUser :: "world \<Rightarrow> User \<Rightarrow> event list \<Rightarrow> error option \<times> event list" where
  "finalizeUser w usr tr =
    (let cfg = NewIdentityConfig (Environ w) [];
         svc = NewIdentityService cfg
     in case GetToken w svc tr of
          (Inl e, svc, tr) \<Rightarrow> (Some e, tr)
        | (Inr _, svc, tr) \<Rightarrow>
           (case DeleteUser w svc (UserStatus.ID (Status usr)) tr of
              (Some e, tr) \<Rightarrow> (Some e, tr)
            | (None, tr) \<Rightarrow> (None, tr)))"

definition createUser ::
  "world \<Rightarrow> User \<Rightarrow> event list \<Rightarrow> (error + IdentityUser) \<times> event list" where
  "createUser w usr tr =
    (let cfg = NewIdentityConfig (Environ w) [];
         svc = NewIdentityService cfg
     in case GetToken w svc tr of
          (Inl e, svc, tr) \<Rightarrow> (Inl e, tr)
        | (Inr _, svc, tr) \<Rightarrow>
           (case CreateUser w svc (Spec usr) tr of
              (Inl e, tr) \<Rightarrow> (Inl e, tr)
            | (Inr u, tr) \<Rightarrow> (Inr u, tr)))"

definition getUser ::
  "world \<Rightarrow> string \<Rightarrow> event list \<Rightarrow> (error + IdentityUser) \<times> event list" where
  "getUser w userID tr =
    (let cfg = NewIdentityConfig (Environ w) [];
         svc = NewIdentityService cfg
     in case GetToken w svc tr of
          (Inl e, svc, tr) \<Rightarrow> (Inl e, tr)
        | (Inr _, svc, tr) \<Rightarrow>
           (case GetUser w svc userID tr of
              (Inl e, tr) \<Rightarrow> (Inl e, tr)
            | (Inr u, tr) \<Rightarrow> (Inr u, tr)))"

definition updateUser ::
  "world \<Rightarrow> User \<Rightarrow> IdentityUser \<Rightarrow> event list \<Rightarrow> (error + IdentityUser) \<times> event list" where
  "updateUser w usr extUser tr =
    (let cfg = NewIdentityConfig (Environ w) [];
         svc = NewIdentityService cfg
     in case GetToken w svc tr of
          (Inl e, svc, tr) \<Rightarrow> (Inl e, tr)
        | (Inr _, svc, tr) \<Rightarrow>
           (case UpdateUser w svc (IdentityUser.ID extUser) (Spec usr) tr of
              (Inl e, tr) \<Rightarrow> (Inl e, tr)
            | (Inr u, tr) \<Rightarrow> (Inr u, tr)))"

subsection \<open>Writes to the store\<close>

text \<open>
  The state of an invocation after a successful fetch: the trace, and the record as
  the store holds it. The store is not part of the program; following the spec's
  interface (\<open>UpdateStatus\<close>, \<open>UpdateFinalizers\<close>), an accepted \<^verbatim>\<open>r.Update\<close> replaces
  everything but the status, and an accepted \<^verbatim>\<open>r.Status().Update\<close> replaces the
  status. A refused write changes nothing.
\<close>

record state =
  trace :: "event list"
  stored :: User

definition Update :: "world \<Rightarrow> User \<Rightarrow> state \<Rightarrow> error option \<times> state" where
  "Update w usr st =
    (let st' = st\<lparr>trace := trace st @ [EvUpdate usr]\<rparr>
     in case StoreUpdate w usr of
          Some e \<Rightarrow> (Some e, st')
        | None \<Rightarrow> (None, st'\<lparr>stored := usr\<lparr>Status := Status (stored st)\<rparr>\<rparr>))"

definition StatusUpdate :: "world \<Rightarrow> User \<Rightarrow> state \<Rightarrow> error option \<times> state" where
  "StatusUpdate w usr st =
    (let st' = st\<lparr>trace := trace st @ [EvStatusUpdate usr]\<rparr>
     in case StoreStatusUpdate w usr of
          Some e \<Rightarrow> (Some e, st')
        | None \<Rightarrow> (None, st'\<lparr>stored := (stored st)\<lparr>Status := Status usr\<rparr>\<rparr>))"

text \<open>\<^verbatim>\<open>addFinalizer\<close> changes the record in memory and writes it.\<close>

definition addFinalizer :: "world \<Rightarrow> User \<Rightarrow> state \<Rightarrow> error option \<times> User \<times> state" where
  "addFinalizer w usr st =
    (let usr = usr\<lparr>Finalizers := Finalizers usr @ [userFinalizer]\<rparr>
     in case Update w usr st of (r, st) \<Rightarrow> (r, usr, st))"

subsection \<open>\<^verbatim>\<open>Reconcile\<close>\<close>

record Result =
  Requeue :: bool
  RequeueAfter :: int

definition emptyResult :: Result where
  "emptyResult = \<lparr>Requeue = False, RequeueAfter = 0\<rparr>"

text \<open>
  What one invocation yields: the pair \<^verbatim>\<open>(ctrl.Result, error)\<close> it returns, the
  events in order, and the record as the store holds it afterwards (\<open>None\<close> when the
  fetch did not return a record).
\<close>

record outcome =
  result :: Result
  err :: "error option"
  events :: "event list"
  durable :: "User option"

definition returns :: "error option \<Rightarrow> state \<Rightarrow> outcome" where
  "returns e st = \<lparr>result = emptyResult, err = e, events = trace st, durable = Some (stored st)\<rparr>"

definition drift :: "IdentityUser \<Rightarrow> UserSpec \<Rightarrow> bool" where
  "drift extUser spec =
    (IdentityUser.Name extUser \<noteq> UserSpec.Name spec
     \<or> IdentityUser.Firstname extUser \<noteq> UserSpec.Firstname spec
     \<or> IdentityUser.Lastname extUser \<noteq> UserSpec.Lastname spec
     \<or> IdentityUser.Role extUser \<noteq> UserSpec.Role spec
     \<or> IdentityUser.Age extUser \<noteq> UserSpec.Age spec)"

text \<open>The tail of \<^verbatim>\<open>Reconcile\<close>, reached from the branch for a known external ID.\<close>

definition ensureFinalizer :: "world \<Rightarrow> User \<Rightarrow> state \<Rightarrow> outcome" where
  "ensureFinalizer w usr st =
    (if \<not> containsString (Finalizers usr) userFinalizer then
       (case addFinalizer w usr st of
          (Some e, usr, st) \<Rightarrow> returns (Some e) st
        | (None, usr, st) \<Rightarrow> returns None st)
     else returns None st)"

definition Reconcile :: "world \<Rightarrow> NamespacedName \<Rightarrow> outcome" where
  "Reconcile w req =
    (case Get w req of
       Inl e \<Rightarrow>
         (if IsNotFound e
          then \<lparr>result = emptyResult, err = None, events = [EvGet req], durable = None\<rparr>
          else \<lparr>result = emptyResult, err = None, events = [EvGet req], durable = None\<rparr>)
     | Inr usr \<Rightarrow>
         let st = \<lparr>trace = [EvGet req], stored = usr\<rparr> in
         if \<not> IsZero (DeletionTimestamp usr) then
           (if containsString (Finalizers usr) userFinalizer then
              (case finalizeUser w usr (trace st) of
                 (Some e, tr) \<Rightarrow> returns (Some e) (st\<lparr>trace := tr\<rparr>)
               | (None, tr) \<Rightarrow>
                   let usr = usr\<lparr>Finalizers := removeString (Finalizers usr) userFinalizer\<rparr>
                   in (case Update w usr (st\<lparr>trace := tr\<rparr>) of
                         (Some e, st) \<Rightarrow> returns (Some e) st
                       | (None, st) \<Rightarrow> returns None st))
            else returns None st)
         else if UserStatus.ID (Status usr) = [] then
           (case createUser w usr (trace st) of
              (Inl e, tr) \<Rightarrow> returns (Some e) (st\<lparr>trace := tr\<rparr>)
            | (Inr extUser, tr) \<Rightarrow>
                let usr = usr\<lparr>Status := (Status usr)\<lparr>State := ''Created''\<rparr>\<rparr>;
                    usr = usr\<lparr>Status := (Status usr)\<lparr>UserStatus.ID := IdentityUser.ID extUser\<rparr>\<rparr>
                in (case StatusUpdate w usr (st\<lparr>trace := tr\<rparr>) of
                      (Some e, st) \<Rightarrow> returns (Some e) st
                    | (None, st) \<Rightarrow> returns None st))
         else
           (case getUser w (UserStatus.ID (Status usr)) (trace st) of
              (Inl e, tr) \<Rightarrow> returns (Some e) (st\<lparr>trace := tr\<rparr>)
            | (Inr extUser, tr) \<Rightarrow>
                if drift extUser (Spec usr) then
                  (case updateUser w usr extUser tr of
                     (Inl e, tr) \<Rightarrow> returns (Some e) (st\<lparr>trace := tr\<rparr>)
                   | (Inr _, tr) \<Rightarrow> ensureFinalizer w usr (st\<lparr>trace := tr\<rparr>))
                else ensureFinalizer w usr (st\<lparr>trace := tr\<rparr>)))"


section \<open>Concrete inputs\<close>

text \<open>
  A record, an external record that matches its spec, and a world in which the store
  holds a given record and every call succeeds: the service answers 200, logs in
  with the token \<open>tok\<close> and returns the external record with ID \<open>42\<close>.
\<close>

definition reqKey :: NamespacedName where
  "reqKey = (''default'', ''alice'')"

definition specAlice :: UserSpec where
  "specAlice = \<lparr>UserSpec.Name = ''alice'', Password = ''secret'', Firstname = ''Alice'',
                 Lastname = ''Liddell'', Role = ''admin'', Age = 30\<rparr>"

definition extAlice :: IdentityUser where
  "extAlice = \<lparr>IdentityUser.ID = ''42'', Name = ''alice'', Password = [], Firstname = ''Alice'',
                Lastname = ''Liddell'', Role = ''admin'', Age = 30\<rparr>"

definition freshUser :: User where
  "freshUser = \<lparr>DeletionTimestamp = None, Finalizers = [], Spec = specAlice,
                 Status = \<lparr>UserStatus.ID = [], State = []\<rparr>\<rparr>"

definition createdUser :: User where
  "createdUser = freshUser\<lparr>Status := \<lparr>UserStatus.ID = ''42'', State = ''Created''\<rparr>\<rparr>"

definition protectedUser :: User where
  "protectedUser = createdUser\<lparr>Finalizers := [userFinalizer]\<rparr>"

definition deletingUser :: User where
  "deletingUser = protectedUser\<lparr>DeletionTimestamp := Some 1700000000\<rparr>"

definition okResponse :: HttpResponse where
  "okResponse = \<lparr>StatusCode = 200, Body = Inr ''{}''\<rparr>"

definition okWorld :: "User \<Rightarrow> world" where
  "okWorld u =
    \<lparr>Environ = Map.empty,
     Get = (\<lambda>_. Inr u),
     StoreUpdate = (\<lambda>_. None),
     StoreStatusUpdate = (\<lambda>_. None),
     NewRequest = (\<lambda>_ _. None),
     Do = (\<lambda>_ _. Inr okResponse),
     MarshalLogin = (\<lambda>_. Inr ''{login}''),
     MarshalSpec = (\<lambda>_. Inr ''{spec}''),
     UnmarshalLogin = (\<lambda>_. Inr \<lparr>Token = ''tok''\<rparr>),
     UnmarshalUser = (\<lambda>_. Inr extAlice)\<rparr>"

text \<open>The service answers every request with status 500 and an empty body.\<close>

definition serverErrorWorld :: "User \<Rightarrow> world" where
  "serverErrorWorld u = (okWorld u)\<lparr>Do := (\<lambda>_ _. Inr \<lparr>StatusCode = 500, Body = Inr []\<rparr>)\<rparr>"

text \<open>The transport fails on DELETE requests, and only on them.\<close>

definition deleteFailsWorld :: "User \<Rightarrow> world" where
  "deleteFailsWorld u =
    (okWorld u)\<lparr>Do := (\<lambda>_ r. if Method r = ''DELETE''
                                then Inl (TransportError ''connection refused'')
                                else Inr okResponse)\<rparr>"

text \<open>The login cannot reach the service.\<close>

definition loginFailsWorld :: "User \<Rightarrow> world" where
  "loginFailsWorld u =
    (okWorld u)\<lparr>Do := (\<lambda>_ r. Inl (TransportError ''connection refused''))\<rparr>"

text \<open>The store fails the fetch with an error other than not-found.\<close>

definition fetchFailsWorld :: world where
  "fetchFailsWorld = (okWorld freshUser)\<lparr>Get := (\<lambda>_. Inl (StoreError ''etcdserver: request timed out''))\<rparr>"

text \<open>A protected record whose spec has moved away from the external record.\<close>

definition driftedUser :: User where
  "driftedUser = protectedUser\<lparr>Spec := specAlice\<lparr>UserSpec.Role := ''auditor''\<rparr>\<rparr>"

section \<open>Observing the events\<close>

text \<open>
  The service every helper builds: the configuration resolved from the environment
  with no options, and no token yet.
\<close>

definition freshService :: "world \<Rightarrow> IdentityService" where
  "freshService w = NewIdentityService (NewIdentityConfig (Environ w) [])"

text \<open>HTTP round trips, and writes to the store.\<close>

fun isDo :: "event \<Rightarrow> bool" where
  "isDo (EvDo _) = True"
| "isDo _ = False"

fun isWrite :: "event \<Rightarrow> bool" where
  "isWrite (EvUpdate _) = True"
| "isWrite (EvStatusUpdate _) = True"
| "isWrite _ = False"

text \<open>
  \<open>loginFirst s tr tr'\<close>: the trace \<open>tr'\<close> extends \<open>tr\<close>, and the first event added,
  if there is one, is the login request of the service \<open>s\<close>.
\<close>

definition loginFirst :: "IdentityService \<Rightarrow> event list \<Rightarrow> event list \<Rightarrow> bool" where
  "loginFirst s tr tr' =
    (take (length tr) tr' = tr \<and>
     (case drop (length tr) tr' of
        [] \<Rightarrow> True
      | ev # _ \<Rightarrow> (case ev of
                     EvDo r \<Rightarrow> Method r = ''POST'' \<and> URL r = baseURL s @ ''/login''
                   | _ \<Rightarrow> False)))"

section \<open>Properties of the configuration\<close>


lemma Atoi_integer: "isInteger s \<Longrightarrow> snd (Atoi s) \<noteq> Some ErrSyntax"
  by (cases s) (auto simp: isInteger_def Atoi_def ParseUintSyntax_def Let_def)

lemma applyOpts_append: "applyOpts cfg (opts @ [opt]) = opt (applyOpts cfg opts)"
  by (induction opts arbitrary: cfg) auto

lemma NewIdentityConfig_opts:
  "NewIdentityConfig env opts = applyOpts (NewIdentityConfig env []) opts"
  by (simp add: NewIdentityConfig_def Let_def)

text \<open>
  C9: for every environment, each of host, port, user and pass is the value of its
  environment variable (\<open>IDM_HOST\<close>, \<open>IDM_PORT\<close>, \<open>IDM_USER\<close>, \<open>IDM_PASS\<close>) when that
  variable is set and non-empty, and the built-in default (\<open>127.0.0.1\<close>, \<open>8080\<close>,
  \<open>John\<close>, \<open>VMw@re1!\<close>) otherwise; the port is the variable as \<^verbatim>\<open>strconv.Atoi\<close>
  reads it. The functional options are applied afterwards, in order, so that the last
  option for a field decides it.
\<close>

theorem NewIdentityConfig_resolution:
  "host (NewIdentityConfig env []) =
     (case env ''IDM_HOST'' of Some v \<Rightarrow> if v \<noteq> [] then v else ''127.0.0.1'' | None \<Rightarrow> ''127.0.0.1'')
   \<and> port (NewIdentityConfig env []) =
     (case env ''IDM_PORT'' of Some v \<Rightarrow> if v \<noteq> [] then fst (Atoi v) else 8080 | None \<Rightarrow> 8080)
   \<and> user (NewIdentityConfig env []) =
     (case env ''IDM_USER'' of Some v \<Rightarrow> if v \<noteq> [] then v else ''John'' | None \<Rightarrow> ''John'')
   \<and> pass (NewIdentityConfig env []) =
     (case env ''IDM_PASS'' of Some v \<Rightarrow> if v \<noteq> [] then v else ''VMw@re1!'' | None \<Rightarrow> ''VMw@re1!'')
   \<and> NewIdentityConfig env opts = applyOpts (NewIdentityConfig env []) opts
   \<and> host (NewIdentityConfig env (opts @ [WithHost h])) = h
   \<and> port (NewIdentityConfig env (opts @ [WithPort p])) = p
   \<and> user (NewIdentityConfig env (opts @ [WithUser u])) = u
   \<and> pass (NewIdentityConfig env (opts @ [WithPass pw])) = pw"
proof -
  have fields: "host (NewIdentityConfig env []) =
     (case env ''IDM_HOST'' of Some v \<Rightarrow> if v \<noteq> [] then v else ''127.0.0.1'' | None \<Rightarrow> ''127.0.0.1'')"
    "port (NewIdentityConfig env []) =
     (case env ''IDM_PORT'' of Some v \<Rightarrow> if v \<noteq> [] then fst (Atoi v) else 8080 | None \<Rightarrow> 8080)"
    "user (NewIdentityConfig env []) =
     (case env ''IDM_USER'' of Some v \<Rightarrow> if v \<noteq> [] then v else ''John'' | None \<Rightarrow> ''John'')"
    "pass (NewIdentityConfig env []) =
     (case env ''IDM_PASS'' of Some v \<Rightarrow> if v \<noteq> [] then v else ''VMw@re1!'' | None \<Rightarrow> ''VMw@re1!'')"
    by (simp_all add: NewIdentityConfig_def Getenv_def defaultConfig_def Let_def split: option.split)
  have last: "\<And>opt. NewIdentityConfig env (opts @ [opt]) = opt (NewIdentityConfig env opts)"
    by (simp add: NewIdentityConfig_def Let_def applyOpts_append)
  show ?thesis
    using fields NewIdentityConfig_opts [of env opts]
    by (simp add: last WithHost_def WithPort_def WithUser_def WithPass_def)
qed

theorem NewIdentityConfig_resolution_witness:
  "host (NewIdentityConfig [''IDM_HOST'' \<mapsto> ''idm.example'', ''IDM_PORT'' \<mapsto> ''9090'', ''IDM_USER'' \<mapsto> []] []) = ''idm.example''
   \<and> port (NewIdentityConfig [''IDM_HOST'' \<mapsto> ''idm.example'', ''IDM_PORT'' \<mapsto> ''9090'', ''IDM_USER'' \<mapsto> []] []) = 9090
   \<and> user (NewIdentityConfig [''IDM_HOST'' \<mapsto> ''idm.example'', ''IDM_PORT'' \<mapsto> ''9090'', ''IDM_USER'' \<mapsto> []] []) = ''John''
   \<and> pass (NewIdentityConfig [''IDM_HOST'' \<mapsto> ''idm.example'', ''IDM_PORT'' \<mapsto> ''9090'', ''IDM_USER'' \<mapsto> []] []) = ''VMw@re1!''
   \<and> port (NewIdentityConfig [''IDM_HOST'' \<mapsto> ''idm.example'', ''IDM_PORT'' \<mapsto> ''9090'', ''IDM_USER'' \<mapsto> []] [WithPort 1, WithPort 7]) = 7"
  using NewIdentityConfig_resolution [of "[''IDM_HOST'' \<mapsto> ''idm.example'', ''IDM_PORT'' \<mapsto> ''9090'', ''IDM_USER'' \<mapsto> []]" "[WithPort 1]" "''h''" 7 "''u''" "''pw''"]
  by (simp add: Atoi_def ParseUintSyntax_def isDigit_def)



text \<open>
  A numeral too large for a 64-bit \<^verbatim>\<open>int\<close> is a different matter: \<^verbatim>\<open>strconv.Atoi\<close>
  returns the largest \<^verbatim>\<open>int\<close> together with a range error, and that value becomes
  the port.
\<close>

lemma NewIdentityConfig_port_out_of_range:
  "isInteger ''99999999999999999999''
   \<and> port (NewIdentityConfig [''IDM_PORT'' \<mapsto> ''99999999999999999999''] []) = 9223372036854775807"
  by (simp add: NewIdentityConfig_def Getenv_def defaultConfig_def Let_def isInteger_def
        isDigit_def Atoi_def ParseUintSyntax_def)

section \<open>Evaluating the model on concrete inputs\<close>

lemma natDigits_small: "n < 10 \<Longrightarrow> natDigits n = [digitChar n]"
  by (subst natDigits.simps) simp
lemma natDigits_large: "\<not> n < 10 \<Longrightarrow> natDigits n = natDigits (n div 10) @ [digitChar (n mod 10)]"
  by (subst natDigits.simps) simp
lemma Itoa_8080: "Itoa 8080 = ''8080''"
  by (simp add: Itoa_def natDigits_small natDigits_large digitChar_def)

lemmas world_defs = okWorld_def deleteFailsWorld_def loginFailsWorld_def serverErrorWorld_def
  fetchFailsWorld_def okResponse_def
lemmas user_defs = freshUser_def createdUser_def protectedUser_def deletingUser_def
  specAlice_def extAlice_def reqKey_def userFinalizer_def driftedUser_def
lemmas client_defs = GetToken_def CreateUser_def GetUser_def DeleteUser_def UpdateUser_def
  baseURL_def NewIdentityService_def NewIdentityConfig_def defaultConfig_def Getenv_def
  Itoa_8080 freshService_def
lemmas controller_defs = Reconcile_def finalizeUser_def createUser_def getUser_def updateUser_def
  addFinalizer_def ensureFinalizer_def Update_def StatusUpdate_def returns_def emptyResult_def
  IsZero_def IsNotFound_def drift_def

section \<open>Properties of the client\<close>

lemma GetToken_trace:
  assumes "GetToken w s tr = (r, s', tr')"
  shows "tr' = tr \<or> (\<exists>b. tr' = tr @ [EvDo \<lparr>Method = ''POST'', URL = baseURL s @ ''/login'', Header = [], ReqBody = Some b\<rparr>])"
  using assms
  by (auto simp: GetToken_def Let_def split: sum.splits option.splits)

lemma GetToken_Inr:
  assumes "GetToken w s tr = (Inr t, s', tr')"
  shows "s' = s\<lparr>token := t\<rparr> \<and> (\<exists>b. tr' = tr @ [EvDo \<lparr>Method = ''POST'', URL = baseURL s @ ''/login'', Header = [], ReqBody = Some b\<rparr>])"
  using assms
  by (auto simp: GetToken_def Let_def split: sum.splits option.splits)

lemma DeleteUser_None:
  assumes "DeleteUser w s uid tr = (None, tr')"
  shows "tr' = tr @ [EvDo \<lparr>Method = ''DELETE'', URL = baseURL s @ ''/users/'' @ uid,
                       Header = [(''Authorization'', ''Bearer '' @ token s)], ReqBody = None\<rparr>]"
  using assms
  by (auto simp: DeleteUser_def Let_def split: sum.splits option.splits)

lemma DeleteUser_Some:
  assumes "DeleteUser w s uid tr = (Some e, tr')"
  shows "tr' = tr \<or> tr' = tr @ [EvDo \<lparr>Method = ''DELETE'', URL = baseURL s @ ''/users/'' @ uid,
                       Header = [(''Authorization'', ''Bearer '' @ token s)], ReqBody = None\<rparr>]"
  using assms
  by (auto simp: DeleteUser_def Let_def split: sum.splits option.splits)

lemma CreateUser_trace:
  assumes "CreateUser w s spec tr = (r, tr')"
  shows "tr' = tr \<or> (\<exists>b. MarshalSpec w spec = Inr b \<and>
           tr' = tr @ [EvDo \<lparr>Method = ''POST'', URL = baseURL s @ ''/users'',
                            Header = [(''Authorization'', ''Bearer '' @ token s),
                                      (''Content-Type'', ''application/json'')],
                            ReqBody = Some b\<rparr>])"
  using assms by (auto simp: CreateUser_def Let_def split: sum.splits option.splits)

lemma CreateUser_Inr:
  assumes "CreateUser w s spec tr = (Inr u, tr')"
  shows "\<exists>b. MarshalSpec w spec = Inr b \<and>
           tr' = tr @ [EvDo \<lparr>Method = ''POST'', URL = baseURL s @ ''/users'',
                            Header = [(''Authorization'', ''Bearer '' @ token s),
                                      (''Content-Type'', ''application/json'')],
                            ReqBody = Some b\<rparr>]"
  using assms by (auto simp: CreateUser_def Let_def split: sum.splits option.splits)

lemma GetUser_trace:
  assumes "GetUser w s uid tr = (r, tr')"
  shows "tr' = tr \<or>
           tr' = tr @ [EvDo \<lparr>Method = ''GET'', URL = baseURL s @ ''/users/'' @ uid,
                            Header = [(''Authorization'', ''Bearer '' @ token s),
                                      (''Accept'', ''application/json'')],
                            ReqBody = None\<rparr>]"
  using assms by (auto simp: GetUser_def Let_def split: sum.splits option.splits)

lemma GetUser_Inr:
  assumes "GetUser w s uid tr = (Inr u, tr')"
  shows "tr' = tr @ [EvDo \<lparr>Method = ''GET'', URL = baseURL s @ ''/users/'' @ uid,
                            Header = [(''Authorization'', ''Bearer '' @ token s),
                                      (''Accept'', ''application/json'')],
                            ReqBody = None\<rparr>]"
  using assms by (auto simp: GetUser_def Let_def split: sum.splits option.splits)

lemma UpdateUser_trace:
  assumes "UpdateUser w s uid spec tr = (r, tr')"
  shows "tr' = tr \<or> (\<exists>b. MarshalSpec w spec = Inr b \<and>
           tr' = tr @ [EvDo \<lparr>Method = ''PUT'', URL = baseURL s @ ''/users/'' @ uid,
                            Header = [(''Authorization'', ''Bearer '' @ token s),
                                      (''Content-Type'', ''application/json'')],
                            ReqBody = Some b\<rparr>])"
  using assms by (auto simp: UpdateUser_def Let_def split: sum.splits option.splits)

lemma UpdateUser_Inr:
  assumes "UpdateUser w s uid spec tr = (Inr u, tr')"
  shows "\<exists>b. MarshalSpec w spec = Inr b \<and>
           tr' = tr @ [EvDo \<lparr>Method = ''PUT'', URL = baseURL s @ ''/users/'' @ uid,
                            Header = [(''Authorization'', ''Bearer '' @ token s),
                                      (''Content-Type'', ''application/json'')],
                            ReqBody = Some b\<rparr>]"
  using assms by (auto simp: UpdateUser_def Let_def split: sum.splits option.splits)

lemma DeleteUser_trace:
  assumes "DeleteUser w s uid tr = (r, tr')"
  shows "tr' = tr \<or> tr' = tr @ [EvDo \<lparr>Method = ''DELETE'', URL = baseURL s @ ''/users/'' @ uid,
                       Header = [(''Authorization'', ''Bearer '' @ token s)], ReqBody = None\<rparr>]"
  using assms by (cases r) (auto dest: DeleteUser_None DeleteUser_Some)

text \<open>
  C2, as stated, fails: the service answers the DELETE with status 500, and
  \<^verbatim>\<open>DeleteUser\<close> returns nil.
\<close>

theorem DeleteUser_ignores_status_counterexample:
  "Do (serverErrorWorld deletingUser) []
      \<lparr>Method = ''DELETE'', URL = ''http://127.0.0.1:8080/users/42'',
       Header = [(''Authorization'', ''Bearer tok'')], ReqBody = None\<rparr>
     = Inr \<lparr>StatusCode = 500, Body = Inr []\<rparr>
   \<and> DeleteUser (serverErrorWorld deletingUser)
        ((freshService (serverErrorWorld deletingUser))\<lparr>token := ''tok''\<rparr>) ''42'' []
     = (None, [EvDo \<lparr>Method = ''DELETE'', URL = ''http://127.0.0.1:8080/users/42'',
                      Header = [(''Authorization'', ''Bearer tok'')], ReqBody = None\<rparr>])"
  by (simp add: world_defs client_defs Let_def)

text \<open>
  C2, amended: \<^verbatim>\<open>DeleteUser\<close> returns an error exactly when the request cannot be
  built or the round trip itself fails, and it returns that error; once the service
  has answered, the result is nil whatever the status code of the answer.
\<close>

theorem DeleteUser_error_iff:
  "(fst (DeleteUser w s userID tr) = Some e \<longleftrightarrow>
      NewRequest w ''DELETE'' (baseURL s @ ''/users/'' @ userID) = Some e
      \<or> (NewRequest w ''DELETE'' (baseURL s @ ''/users/'' @ userID) = None
          \<and> Do w tr \<lparr>Method = ''DELETE'', URL = baseURL s @ ''/users/'' @ userID,
                      Header = [(''Authorization'', ''Bearer '' @ token s)], ReqBody = None\<rparr> = Inl e))
   \<and> (NewRequest w ''DELETE'' (baseURL s @ ''/users/'' @ userID) = None \<longrightarrow>
        Do w tr \<lparr>Method = ''DELETE'', URL = baseURL s @ ''/users/'' @ userID,
                  Header = [(''Authorization'', ''Bearer '' @ token s)], ReqBody = None\<rparr> = Inr resp \<longrightarrow>
        fst (DeleteUser w s userID tr) = None)"
  by (auto simp: DeleteUser_def Let_def split: option.splits sum.splits)

theorem DeleteUser_error_iff_witness:
  "fst (DeleteUser (serverErrorWorld deletingUser) (freshService (serverErrorWorld deletingUser)) ''42'' []) = None
   \<and> fst (DeleteUser (deleteFailsWorld deletingUser) (freshService (deleteFailsWorld deletingUser)) ''42'' [])
       = Some (TransportError ''connection refused'')"
  using DeleteUser_error_iff [of "serverErrorWorld deletingUser" "freshService (serverErrorWorld deletingUser)" "''42''" "[]"
        "TransportError ''connection refused''" "\<lparr>StatusCode = 500, Body = Inr []\<rparr>"]
    DeleteUser_error_iff [of "deleteFailsWorld deletingUser" "freshService (deleteFailsWorld deletingUser)" "''42''" "[]"
        "TransportError ''connection refused''" "\<lparr>StatusCode = 500, Body = Inr []\<rparr>"]
  by (simp add: world_defs)

section \<open>Properties of the helpers\<close>

lemma baseURL_token [simp]: "baseURL (s\<lparr>token := t\<rparr>) = baseURL s"
  by (simp add: baseURL_def)




lemma finalizeUser_login_error:
  assumes "GetToken w (freshService w) tr = (Inl e, svc, tr')"
  shows "finalizeUser w usr tr = (Some e, tr')"
  using assms by (simp add: finalizeUser_def freshService_def Let_def)

text \<open>Each helper is the login followed by its call.\<close>

lemma helpers_login_error:
  assumes "GetToken w (freshService w) tr = (Inl e, s', tr')"
  shows "finalizeUser w usr tr = (Some e, tr')" "createUser w usr tr = (Inl e, tr')"
    "getUser w uid tr = (Inl e, tr')" "updateUser w usr ext tr = (Inl e, tr')"
  using assms
  by (simp_all add: finalizeUser_def createUser_def getUser_def updateUser_def freshService_def Let_def)

lemma helpers_login_ok:
  assumes "GetToken w (freshService w) tr = (Inr t, s', tr')"
  shows "finalizeUser w usr tr = DeleteUser w s' (UserStatus.ID (Status usr)) tr'"
    "createUser w usr tr = CreateUser w s' (Spec usr) tr'"
    "getUser w uid tr = GetUser w s' uid tr'"
    "updateUser w usr ext tr = UpdateUser w s' (IdentityUser.ID ext) (Spec usr) tr'"
  using assms
  by (auto simp: finalizeUser_def createUser_def getUser_def updateUser_def freshService_def Let_def
      split: prod.splits option.splits sum.splits)

lemma loginFirst_refl: "loginFirst s tr tr"
  by (simp add: loginFirst_def)

lemma loginFirst_login:
  "loginFirst s tr (tr @ EvDo \<lparr>Method = ''POST'', URL = baseURL s @ ''/login'', Header = h, ReqBody = b\<rparr> # rest)"
  by (simp add: loginFirst_def)

lemma loginFirst_after:
  assumes "GetToken w s tr = (r, s', tr1)" and "tr2 = tr1 \<or> (\<exists>ev. tr2 = tr1 @ [ev])" and "tr2 = tr1 \<or> tr1 \<noteq> tr"
  shows "loginFirst s tr tr2"
  using GetToken_trace [OF assms(1)] assms(2,3)
  by (auto simp: loginFirst_refl loginFirst_login)

text \<open>
  C8: in each of the four helpers (delete, create, get, update) the first request sent
  is the login of a freshly built service; and when the login returns an error, the
  helper returns that error and its trace is that of the login alone, which added at
  most the login request: the downstream call is not attempted.
\<close>

theorem helpers_login_first:
  "loginFirst (freshService w) tr (snd (finalizeUser w usr tr))
   \<and> loginFirst (freshService w) tr (snd (createUser w usr tr))
   \<and> loginFirst (freshService w) tr (snd (getUser w userID tr))
   \<and> loginFirst (freshService w) tr (snd (updateUser w usr extUser tr))
   \<and> (GetToken w (freshService w) tr = (Inl e, s', tr') \<longrightarrow>
        finalizeUser w usr tr = (Some e, tr') \<and> createUser w usr tr = (Inl e, tr')
        \<and> getUser w userID tr = (Inl e, tr') \<and> updateUser w usr extUser tr = (Inl e, tr')
        \<and> (tr' = tr \<or> (\<exists>b. tr' = tr @ [EvDo \<lparr>Method = ''POST'', URL = baseURL (freshService w) @ ''/login'',
                                               Header = [], ReqBody = Some b\<rparr>])))"
proof -
  obtain r s1 tr1 where g: "GetToken w (freshService w) tr = (r, s1, tr1)"
    by (cases "GetToken w (freshService w) tr") auto
  have first: "loginFirst (freshService w) tr (snd (finalizeUser w usr tr))
    \<and> loginFirst (freshService w) tr (snd (createUser w usr tr))
    \<and> loginFirst (freshService w) tr (snd (getUser w userID tr))
    \<and> loginFirst (freshService w) tr (snd (updateUser w usr extUser tr))"
  proof (cases r)
    case (Inl e1)
    with g have g': "GetToken w (freshService w) tr = (Inl e1, s1, tr1)" by simp
    have lf: "loginFirst (freshService w) tr tr1" using loginFirst_after [OF g] by simp
    with helpers_login_error [OF g'] show ?thesis by simp
  next
    case (Inr t)
    with g have g': "GetToken w (freshService w) tr = (Inr t, s1, tr1)" by simp
    from GetToken_Inr [OF g'] have ne: "tr1 \<noteq> tr" by auto
    have d: "snd (DeleteUser w s1 (UserStatus.ID (Status usr)) tr1) = tr1
        \<or> (\<exists>ev. snd (DeleteUser w s1 (UserStatus.ID (Status usr)) tr1) = tr1 @ [ev])"
      using DeleteUser_trace [of w s1 "UserStatus.ID (Status usr)" tr1]
      by (cases "DeleteUser w s1 (UserStatus.ID (Status usr)) tr1") auto
    have c: "snd (CreateUser w s1 (Spec usr) tr1) = tr1
        \<or> (\<exists>ev. snd (CreateUser w s1 (Spec usr) tr1) = tr1 @ [ev])"
      using CreateUser_trace [of w s1 "Spec usr" tr1]
      by (cases "CreateUser w s1 (Spec usr) tr1") auto
    have gu: "snd (GetUser w s1 userID tr1) = tr1
        \<or> (\<exists>ev. snd (GetUser w s1 userID tr1) = tr1 @ [ev])"
      using GetUser_trace [of w s1 userID tr1]
      by (cases "GetUser w s1 userID tr1") auto
    have u: "snd (UpdateUser w s1 (IdentityUser.ID extUser) (Spec usr) tr1) = tr1
        \<or> (\<exists>ev. snd (UpdateUser w s1 (IdentityUser.ID extUser) (Spec usr) tr1) = tr1 @ [ev])"
      using UpdateUser_trace [of w s1 "IdentityUser.ID extUser" "Spec usr" tr1]
      by (cases "UpdateUser w s1 (IdentityUser.ID extUser) (Spec usr) tr1") auto
    have "loginFirst (freshService w) tr (snd (finalizeUser w usr tr))"
      using loginFirst_after [OF g d] ne helpers_login_ok(1) [OF g'] by simp
    moreover have "loginFirst (freshService w) tr (snd (createUser w usr tr))"
      using loginFirst_after [OF g c] ne helpers_login_ok(2) [OF g'] by simp
    moreover have "loginFirst (freshService w) tr (snd (getUser w userID tr))"
      using loginFirst_after [OF g gu] ne helpers_login_ok(3) [OF g'] by simp
    moreover have "loginFirst (freshService w) tr (snd (updateUser w usr extUser tr))"
      using loginFirst_after [OF g u] ne helpers_login_ok(4) [OF g'] by simp
    ultimately show ?thesis by simp
  qed
  have fail: "GetToken w (freshService w) tr = (Inl e, s', tr') \<longrightarrow>
        finalizeUser w usr tr = (Some e, tr') \<and> createUser w usr tr = (Inl e, tr')
        \<and> getUser w userID tr = (Inl e, tr') \<and> updateUser w usr extUser tr = (Inl e, tr')
        \<and> (tr' = tr \<or> (\<exists>b. tr' = tr @ [EvDo \<lparr>Method = ''POST'', URL = baseURL (freshService w) @ ''/login'',
                                               Header = [], ReqBody = Some b\<rparr>]))"
  proof
    assume a: "GetToken w (freshService w) tr = (Inl e, s', tr')"
    from helpers_login_error [OF a] GetToken_trace [OF a]
    show "finalizeUser w usr tr = (Some e, tr') \<and> createUser w usr tr = (Inl e, tr')
        \<and> getUser w userID tr = (Inl e, tr') \<and> updateUser w usr extUser tr = (Inl e, tr')
        \<and> (tr' = tr \<or> (\<exists>b. tr' = tr @ [EvDo \<lparr>Method = ''POST'', URL = baseURL (freshService w) @ ''/login'',
                                               Header = [], ReqBody = Some b\<rparr>]))"
      by simp
  qed
  from first fail show ?thesis by blast
qed
theorem helpers_login_first_witness:
  "GetToken (loginFailsWorld protectedUser) (freshService (loginFailsWorld protectedUser)) [] =
     (Inl (TransportError ''connection refused''), freshService (loginFailsWorld protectedUser),
      [EvDo \<lparr>Method = ''POST'', URL = ''http://127.0.0.1:8080/login'', Header = [],
              ReqBody = Some ''{login}''\<rparr>])
   \<and> createUser (loginFailsWorld protectedUser) protectedUser [] =
     (Inl (TransportError ''connection refused''),
      [EvDo \<lparr>Method = ''POST'', URL = ''http://127.0.0.1:8080/login'', Header = [],
              ReqBody = Some ''{login}''\<rparr>])
   \<and> finalizeUser (loginFailsWorld protectedUser) protectedUser [] =
     (Some (TransportError ''connection refused''),
      [EvDo \<lparr>Method = ''POST'', URL = ''http://127.0.0.1:8080/login'', Header = [],
              ReqBody = Some ''{login}''\<rparr>])"
proof -
  let ?w = "loginFailsWorld protectedUser"
  let ?tr = "[EvDo \<lparr>Method = ''POST'', URL = ''http://127.0.0.1:8080/login'', Header = [],
              ReqBody = Some ''{login}''\<rparr>]"
  have g: "GetToken ?w (freshService ?w) [] = (Inl (TransportError ''connection refused''), freshService ?w, ?tr)"
    by (simp add: world_defs client_defs Let_def)
  from helpers_login_first [of ?w "[]" protectedUser "''42''" extAlice
      "TransportError ''connection refused''" "freshService ?w" ?tr] g
  show ?thesis by simp
qed

lemma isDo_not_isWrite: "isDo ev \<Longrightarrow> \<not> isWrite ev"
  by (cases ev) auto

lemma status_created:
  "(st :: UserStatus)\<lparr>State := a, UserStatus.ID := b\<rparr> = \<lparr>UserStatus.ID = b, State = a\<rparr>"
  by (cases st) simp

lemma createUser_Inl:
  assumes "createUser w usr tr = (Inl e, tr')"
  shows "\<exists>evs. tr' = tr @ evs \<and> list_all isDo evs"
proof -
  obtain r s1 tr1 where g: "GetToken w (freshService w) tr = (r, s1, tr1)"
    by (cases "GetToken w (freshService w) tr") auto
  from GetToken_trace [OF g] have t1: "\<exists>evs. tr1 = tr @ evs \<and> list_all isDo evs" by auto
  show ?thesis
  proof (cases r)
    case (Inl e')
    with g helpers_login_error(2) [of w tr e' s1 tr1 usr] assms t1 show ?thesis by simp
  next
    case (Inr t)
    with g helpers_login_ok(2) [of w tr t s1 tr1 usr] assms
    have "CreateUser w s1 (Spec usr) tr1 = (Inl e, tr')" by simp
    from CreateUser_trace [OF this] t1 show ?thesis by auto
  qed
qed

lemma createUser_Inr:
  assumes "createUser w usr tr = (Inr ext, tr')"
  shows "\<exists>l c b. tr' = tr @ [EvDo l, EvDo c] \<and> Method l = ''POST'' \<and> URL l = baseURL (freshService w) @ ''/login''
           \<and> Method c = ''POST'' \<and> URL c = baseURL (freshService w) @ ''/users''
           \<and> MarshalSpec w (Spec usr) = Inr b \<and> ReqBody c = Some b"
proof -
  obtain r s1 tr1 where g: "GetToken w (freshService w) tr = (r, s1, tr1)"
    by (cases "GetToken w (freshService w) tr") auto
  show ?thesis
  proof (cases r)
    case (Inl e')
    with g helpers_login_error(2) [of w tr e' s1 tr1 usr] assms show ?thesis by simp
  next
    case (Inr t)
    with g have g': "GetToken w (freshService w) tr = (Inr t, s1, tr1)" by simp
    from helpers_login_ok(2) [OF g', of usr] assms
    have c: "CreateUser w s1 (Spec usr) tr1 = (Inr ext, tr')" by simp
    from GetToken_Inr [OF g'] CreateUser_Inr [OF c] show ?thesis by auto
  qed
qed

lemma containsString_set: "containsString slice s \<longleftrightarrow> s \<in> set slice"
  by (induction slice) auto

lemma removeString_filter: "removeString slice s = filter (\<lambda>item. item \<noteq> s) slice"
  by (induction slice) auto

lemma getUser_Inr:
  assumes "getUser w uid tr = (Inr ext, tr')"
  shows "\<exists>l g. tr' = tr @ [EvDo l, EvDo g] \<and> Method l = ''POST'' \<and> Method g = ''GET''
           \<and> URL g = baseURL (freshService w) @ ''/users/'' @ uid"
proof -
  obtain r s1 tr1 where g: "GetToken w (freshService w) tr = (r, s1, tr1)"
    by (cases "GetToken w (freshService w) tr") auto
  show ?thesis
  proof (cases r)
    case (Inl e')
    with g helpers_login_error(3) [of w tr e' s1 tr1 uid] assms show ?thesis by simp
  next
    case (Inr t)
    with g have g': "GetToken w (freshService w) tr = (Inr t, s1, tr1)" by simp
    from helpers_login_ok(3) [OF g', of uid] assms
    have c: "GetUser w s1 uid tr1 = (Inr ext, tr')" by simp
    from GetToken_Inr [OF g'] GetUser_Inr [OF c] show ?thesis by auto
  qed
qed

lemma getUser_Inl:
  assumes "getUser w uid tr = (Inl e, tr')"
  shows "\<exists>evs. tr' = tr @ evs \<and> list_all isDo evs"
proof -
  obtain r s1 tr1 where g: "GetToken w (freshService w) tr = (r, s1, tr1)"
    by (cases "GetToken w (freshService w) tr") auto
  from GetToken_trace [OF g] have t1: "\<exists>evs. tr1 = tr @ evs \<and> list_all isDo evs" by auto
  show ?thesis
  proof (cases r)
    case (Inl e')
    with g helpers_login_error(3) [of w tr e' s1 tr1 uid] assms t1 show ?thesis by simp
  next
    case (Inr t)
    with g helpers_login_ok(3) [of w tr t s1 tr1 uid] assms
    have "GetUser w s1 uid tr1 = (Inl e, tr')" by simp
    from GetUser_trace [OF this] t1 show ?thesis by auto
  qed
qed

lemma updateUser_Inl:
  assumes "updateUser w usr ext tr = (Inl e, tr')"
  shows "\<exists>evs. tr' = tr @ evs \<and> list_all isDo evs"
proof -
  obtain r s1 tr1 where g: "GetToken w (freshService w) tr = (r, s1, tr1)"
    by (cases "GetToken w (freshService w) tr") auto
  from GetToken_trace [OF g] have t1: "\<exists>evs. tr1 = tr @ evs \<and> list_all isDo evs" by auto
  show ?thesis
  proof (cases r)
    case (Inl e')
    with g helpers_login_error(4) [of w tr e' s1 tr1 usr ext] assms t1 show ?thesis by simp
  next
    case (Inr t)
    with g helpers_login_ok(4) [of w tr t s1 tr1 usr ext] assms
    have "UpdateUser w s1 (IdentityUser.ID ext) (Spec usr) tr1 = (Inl e, tr')" by simp
    from UpdateUser_trace [OF this] t1 show ?thesis by auto
  qed
qed

lemma updateUser_Inr:
  assumes "updateUser w usr ext tr = (Inr u, tr')"
  shows "\<exists>l p. tr' = tr @ [EvDo l, EvDo p] \<and> Method l = ''POST'' \<and> Method p = ''PUT''"
proof -
  obtain r s1 tr1 where g: "GetToken w (freshService w) tr = (r, s1, tr1)"
    by (cases "GetToken w (freshService w) tr") auto
  show ?thesis
  proof (cases r)
    case (Inl e')
    with g helpers_login_error(4) [of w tr e' s1 tr1 usr ext] assms show ?thesis by simp
  next
    case (Inr t)
    with g have g': "GetToken w (freshService w) tr = (Inr t, s1, tr1)" by simp
    from helpers_login_ok(4) [OF g', of usr ext] assms
    have c: "UpdateUser w s1 (IdentityUser.ID ext) (Spec usr) tr1 = (Inr u, tr')" by simp
    from GetToken_Inr [OF g'] UpdateUser_Inr [OF c] show ?thesis by auto
  qed
qed

text \<open>When login, marshalling and request construction succeed, the PUT is sent.\<close>

lemma updateUser_sends:
  assumes "GetToken w (freshService w) tr = (Inr t, s1, tr1)"
    and "MarshalSpec w (Spec usr) = Inr b"
    and "NewRequest w ''PUT'' (baseURL (freshService w) @ ''/users/'' @ IdentityUser.ID ext) = None"
  shows "snd (updateUser w usr ext tr) =
           tr1 @ [EvDo \<lparr>Method = ''PUT'', URL = baseURL (freshService w) @ ''/users/'' @ IdentityUser.ID ext,
                         Header = [(''Authorization'', ''Bearer '' @ t),
                                   (''Content-Type'', ''application/json'')],
                         ReqBody = Some b\<rparr>]"
proof -
  from GetToken_Inr [OF assms(1)] have s1: "s1 = (freshService w)\<lparr>token := t\<rparr>" by simp
  show ?thesis
    unfolding helpers_login_ok(4) [OF assms(1)]
    using assms(2,3)
    by (simp add: UpdateUser_def s1 Let_def split: sum.splits)
qed

lemma events_ensureFinalizer:
  "events (ensureFinalizer w usr st) =
     trace st @ (if containsString (Finalizers usr) userFinalizer then []
                 else [EvUpdate (usr\<lparr>Finalizers := Finalizers usr @ [userFinalizer]\<rparr>)])"
  by (simp add: ensureFinalizer_def addFinalizer_def Update_def returns_def Let_def
      split: option.splits)

section \<open>Properties of \<^verbatim>\<open>Reconcile\<close>\<close>

subsection \<open>The fetch\<close>

text \<open>
  Whatever error the fetch fails with, \<^verbatim>\<open>Reconcile\<close> returns the empty result and a
  nil error.
\<close>

lemma fetch_error_branch:
  "Get w req = Inl e \<Longrightarrow>
     Reconcile w req = \<lparr>result = emptyResult, err = None, events = [EvGet req], durable = None\<rparr>"
  by (simp add: Reconcile_def)

text \<open>
  C4: a fetch failure other than not-found is to be surfaced as an error. Here the
  fetch fails with a store timeout, which is not not-found, and \<^verbatim>\<open>Reconcile\<close>
  returns the empty result and a nil error, as it does for not-found.
\<close>

theorem Reconcile_fetch_failure_not_surfaced:
  "Get fetchFailsWorld reqKey = Inl (StoreError ''etcdserver: request timed out'')
   \<and> \<not> IsNotFound (StoreError ''etcdserver: request timed out'')
   \<and> Reconcile fetchFailsWorld reqKey =
        \<lparr>result = \<lparr>Requeue = False, RequeueAfter = 0\<rparr>, err = None,
         events = [EvGet reqKey], durable = None\<rparr>"
  by (simp add: Reconcile_def fetchFailsWorld_def okWorld_def IsNotFound_def emptyResult_def)

subsection \<open>Deletion\<close>




text \<open>
  C7: for a record whose deletion is requested and that does not carry the finalizer
  marker, \<^verbatim>\<open>Reconcile\<close> returns success; the fetch is its only event, so no request
  goes to the external service and nothing is written, and the stored record is the
  one fetched.
\<close>

theorem Reconcile_deleting_without_finalizer:
  assumes "Get w req = Inr usr" and "\<not> IsZero (DeletionTimestamp usr)"
    and "\<not> containsString (Finalizers usr) userFinalizer"
  shows "Reconcile w req =
           \<lparr>result = emptyResult, err = None, events = [EvGet req], durable = Some usr\<rparr>"
  using assms by (simp add: Reconcile_def returns_def Let_def)

theorem Reconcile_deleting_without_finalizer_witness:
  "Get (okWorld (createdUser\<lparr>DeletionTimestamp := Some 1700000000\<rparr>)) reqKey
      = Inr (createdUser\<lparr>DeletionTimestamp := Some 1700000000\<rparr>)
   \<and> \<not> IsZero (DeletionTimestamp (createdUser\<lparr>DeletionTimestamp := Some 1700000000\<rparr>))
   \<and> \<not> containsString (Finalizers (createdUser\<lparr>DeletionTimestamp := Some 1700000000\<rparr>)) userFinalizer
   \<and> Reconcile (okWorld (createdUser\<lparr>DeletionTimestamp := Some 1700000000\<rparr>)) reqKey =
        \<lparr>result = emptyResult, err = None, events = [EvGet reqKey],
         durable = Some (createdUser\<lparr>DeletionTimestamp := Some 1700000000\<rparr>)\<rparr>"
  using Reconcile_deleting_without_finalizer [of "okWorld (createdUser\<lparr>DeletionTimestamp := Some 1700000000\<rparr>)"
      reqKey "createdUser\<lparr>DeletionTimestamp := Some 1700000000\<rparr>"]
  by (simp add: okWorld_def IsZero_def user_defs)

subsection \<open>Creation\<close>

text \<open>
  C5: for a record that is not being deleted and has an empty \<open>Status.ID\<close>,
  \<^verbatim>\<open>Reconcile\<close> runs the create helper on the record. When the helper fails,
  \<^verbatim>\<open>Reconcile\<close> returns its error, writes nothing, and the stored record is the one
  fetched. When it succeeds, a POST to \<open>/users\<close> carrying the marshalled spec has been
  sent, and \<^verbatim>\<open>Reconcile\<close> writes the status with the returned ID and the state
  \<open>Created\<close>: if the store accepts, that is the stored status and the result is
  success; if it refuses, the store's error is returned and nothing changed.
\<close>

theorem Reconcile_creation:
  assumes "Get w req = Inr usr" and "IsZero (DeletionTimestamp usr)"
    and "UserStatus.ID (Status usr) = []"
  shows "(createUser w usr [EvGet req] = (Inl e, tr) \<longrightarrow>
            Reconcile w req = \<lparr>result = emptyResult, err = Some e, events = tr, durable = Some usr\<rparr>
            \<and> filter isWrite tr = [])
       \<and> (createUser w usr [EvGet req] = (Inr extUser, tr) \<longrightarrow>
            (\<exists>l c b. tr = [EvGet req, EvDo l, EvDo c] \<and> Method c = ''POST''
                  \<and> URL c = baseURL (freshService w) @ ''/users''
                  \<and> MarshalSpec w (Spec usr) = Inr b \<and> ReqBody c = Some b)
            \<and> result (Reconcile w req) = emptyResult
            \<and> events (Reconcile w req) =
                tr @ [EvStatusUpdate (usr\<lparr>Status := \<lparr>UserStatus.ID = IdentityUser.ID extUser, State = ''Created''\<rparr>\<rparr>)]
            \<and> (case StoreStatusUpdate w (usr\<lparr>Status := \<lparr>UserStatus.ID = IdentityUser.ID extUser, State = ''Created''\<rparr>\<rparr>) of
                  None \<Rightarrow> err (Reconcile w req) = None
                       \<and> durable (Reconcile w req) =
                           Some (usr\<lparr>Status := \<lparr>UserStatus.ID = IdentityUser.ID extUser, State = ''Created''\<rparr>\<rparr>)
                | Some e' \<Rightarrow> err (Reconcile w req) = Some e' \<and> durable (Reconcile w req) = Some usr))"
proof (intro conjI impI)
  assume c: "createUser w usr [EvGet req] = (Inl e, tr)"
  from assms c show "Reconcile w req = \<lparr>result = emptyResult, err = Some e, events = tr, durable = Some usr\<rparr>"
    by (simp add: Reconcile_def returns_def Let_def)
  from createUser_Inl [OF c] obtain evs where "tr = [EvGet req] @ evs" "list_all isDo evs" by blast
  then show "filter isWrite tr = []"
    by (auto simp: filter_empty_conv list_all_iff dest: isDo_not_isWrite)
next
  assume c: "createUser w usr [EvGet req] = (Inr extUser, tr)"
  let ?u = "usr\<lparr>Status := \<lparr>UserStatus.ID = IdentityUser.ID extUser, State = ''Created''\<rparr>\<rparr>"
  from createUser_Inr [OF c]
  show "\<exists>l c b. tr = [EvGet req, EvDo l, EvDo c] \<and> Method c = ''POST''
                  \<and> URL c = baseURL (freshService w) @ ''/users''
                  \<and> MarshalSpec w (Spec usr) = Inr b \<and> ReqBody c = Some b"
    by auto
  from assms c show "result (Reconcile w req) = emptyResult"
    by (simp add: Reconcile_def returns_def StatusUpdate_def Let_def status_created split: option.splits)
  from assms c show "events (Reconcile w req) = tr @ [EvStatusUpdate ?u]"
    by (simp add: Reconcile_def returns_def StatusUpdate_def Let_def status_created split: option.splits)
  from assms c show "case StoreStatusUpdate w ?u of
                  None \<Rightarrow> err (Reconcile w req) = None \<and> durable (Reconcile w req) = Some ?u
                | Some e' \<Rightarrow> err (Reconcile w req) = Some e' \<and> durable (Reconcile w req) = Some usr"
    by (simp add: Reconcile_def returns_def StatusUpdate_def Let_def status_created split: option.splits)
qed
theorem Reconcile_creation_witness:
  "Get (okWorld freshUser) reqKey = Inr freshUser \<and> IsZero (DeletionTimestamp freshUser)
   \<and> UserStatus.ID (Status freshUser) = []
   \<and> events (Reconcile (okWorld freshUser) reqKey) =
       [EvGet reqKey,
        EvDo \<lparr>Method = ''POST'', URL = ''http://127.0.0.1:8080/login'', Header = [],
              ReqBody = Some ''{login}''\<rparr>,
        EvDo \<lparr>Method = ''POST'', URL = ''http://127.0.0.1:8080/users'',
              Header = [(''Authorization'', ''Bearer tok''), (''Content-Type'', ''application/json'')],
              ReqBody = Some ''{spec}''\<rparr>,
        EvStatusUpdate createdUser]
   \<and> err (Reconcile (okWorld freshUser) reqKey) = None
   \<and> durable (Reconcile (okWorld freshUser) reqKey) = Some createdUser
   \<and> Reconcile (loginFailsWorld freshUser) reqKey =
       \<lparr>result = emptyResult, err = Some (TransportError ''connection refused''),
        events = [EvGet reqKey,
                  EvDo \<lparr>Method = ''POST'', URL = ''http://127.0.0.1:8080/login'', Header = [],
                        ReqBody = Some ''{login}''\<rparr>],
        durable = Some freshUser\<rparr>"
proof -
  let ?l = "EvDo \<lparr>Method = ''POST'', URL = ''http://127.0.0.1:8080/login'', Header = [],
              ReqBody = Some ''{login}''\<rparr>"
  let ?c = "EvDo \<lparr>Method = ''POST'', URL = ''http://127.0.0.1:8080/users'',
              Header = [(''Authorization'', ''Bearer tok''), (''Content-Type'', ''application/json'')],
              ReqBody = Some ''{spec}''\<rparr>"
  have h1: "Get (okWorld freshUser) reqKey = Inr freshUser"
    and h1': "Get (loginFailsWorld freshUser) reqKey = Inr freshUser"
    by (simp_all add: world_defs)
  have h2: "IsZero (DeletionTimestamp freshUser)" by (simp add: IsZero_def user_defs)
  have h3: "UserStatus.ID (Status freshUser) = []" by (simp add: user_defs)
  have c: "createUser (okWorld freshUser) freshUser [EvGet reqKey] = (Inr extAlice, [EvGet reqKey, ?l, ?c])"
    by (simp add: createUser_def world_defs client_defs Let_def)
  have c': "createUser (loginFailsWorld freshUser) freshUser [EvGet reqKey]
      = (Inl (TransportError ''connection refused''), [EvGet reqKey, ?l])"
    by (simp add: createUser_def world_defs client_defs Let_def)
  have u: "freshUser\<lparr>Status := \<lparr>UserStatus.ID = IdentityUser.ID extAlice, State = ''Created''\<rparr>\<rparr> = createdUser"
    by (simp add: user_defs)
  have s: "StoreStatusUpdate (okWorld freshUser) createdUser = None" by (simp add: world_defs)
  from Reconcile_creation [OF h1 h2 h3, where extUser = extAlice and tr = "[EvGet reqKey, ?l, ?c]"]
    Reconcile_creation [OF h1' h2 h3, where e = "TransportError ''connection refused''"
      and tr = "[EvGet reqKey, ?l]"]
    c c' h1 h2 h3 s
  show ?thesis by (simp add: u)
qed

subsection \<open>A known external ID\<close>

lemma containsString_append: "containsString (slice @ [s]) s"
  by (simp add: containsString_set)

lemma nodrift_branch:
  assumes "Get w req = Inr usr" and "IsZero (DeletionTimestamp usr)"
    and "UserStatus.ID (Status usr) \<noteq> []"
    and "getUser w (UserStatus.ID (Status usr)) [EvGet req] = (Inr extUser, tr)"
    and "\<not> drift extUser (Spec usr)"
  shows "Reconcile w req = ensureFinalizer w usr \<lparr>trace = tr, stored = usr\<rparr>"
  using assms by (simp add: Reconcile_def Let_def)

lemma drift_branch_update:
  assumes "Get w req = Inr usr" and "IsZero (DeletionTimestamp usr)"
    and "UserStatus.ID (Status usr) \<noteq> []"
    and "getUser w (UserStatus.ID (Status usr)) [EvGet req] = (Inr extUser, tr)"
    and "drift extUser (Spec usr)"
  shows "Reconcile w req =
           (case updateUser w usr extUser tr of
              (Inl e, tr2) \<Rightarrow> returns (Some e) \<lparr>trace = tr2, stored = usr\<rparr>
            | (Inr u, tr2) \<Rightarrow> ensureFinalizer w usr \<lparr>trace = tr2, stored = usr\<rparr>)"
  using assms by (simp add: Reconcile_def Let_def split: prod.splits sum.splits)

lemma drift_branch_events:
  assumes "Get w req = Inr usr" and "IsZero (DeletionTimestamp usr)"
    and "UserStatus.ID (Status usr) \<noteq> []"
    and "getUser w (UserStatus.ID (Status usr)) [EvGet req] = (Inr extUser, tr)"
    and "drift extUser (Spec usr)"
  shows "\<exists>rest. events (Reconcile w req) = snd (updateUser w usr extUser tr) @ rest"
  unfolding drift_branch_update [OF assms]
  by (cases "updateUser w usr extUser tr")
     (auto simp: returns_def events_ensureFinalizer split: sum.splits)

text \<open>
  C6: for a record that is not being deleted and has a non-empty \<open>Status.ID\<close>,
  \<^verbatim>\<open>Reconcile\<close> fetches the external record by that ID. Given the external record,
  a PUT is sent only if \<open>drift\<close> holds; and if \<open>drift\<close> holds, the update helper runs,
  so that the PUT with the marshalled spec is sent as soon as the helper's login
  succeeds and the request can be built. \<open>drift\<close> is the disjunction of the five
  inequalities on name, firstname, lastname, role and age, and does not look at
  either password.
\<close>

theorem Reconcile_update_iff_drift:
  assumes "Get w req = Inr usr" and "IsZero (DeletionTimestamp usr)"
    and "UserStatus.ID (Status usr) \<noteq> []"
    and "getUser w (UserStatus.ID (Status usr)) [EvGet req] = (Inr extUser, tr)"
  shows "(\<exists>l g. tr = [EvGet req, EvDo l, EvDo g] \<and> Method g = ''GET''
             \<and> URL g = baseURL (freshService w) @ ''/users/'' @ UserStatus.ID (Status usr))
       \<and> ((\<exists>r. EvDo r \<in> set (events (Reconcile w req)) \<and> Method r = ''PUT'')
            \<longrightarrow> drift extUser (Spec usr))
       \<and> (drift extUser (Spec usr) \<longrightarrow>
            GetToken w (freshService w) tr = (Inr t, s1, tr1) \<longrightarrow>
            MarshalSpec w (Spec usr) = Inr b \<longrightarrow>
            NewRequest w ''PUT'' (baseURL (freshService w) @ ''/users/'' @ IdentityUser.ID extUser) = None \<longrightarrow>
            EvDo \<lparr>Method = ''PUT'', URL = baseURL (freshService w) @ ''/users/'' @ IdentityUser.ID extUser,
                  Header = [(''Authorization'', ''Bearer '' @ t),
                            (''Content-Type'', ''application/json'')],
                  ReqBody = Some b\<rparr> \<in> set (events (Reconcile w req)))
       \<and> (drift extUser (Spec usr) \<longleftrightarrow>
            IdentityUser.Name extUser \<noteq> UserSpec.Name (Spec usr)
            \<or> IdentityUser.Firstname extUser \<noteq> UserSpec.Firstname (Spec usr)
            \<or> IdentityUser.Lastname extUser \<noteq> UserSpec.Lastname (Spec usr)
            \<or> IdentityUser.Role extUser \<noteq> UserSpec.Role (Spec usr)
            \<or> IdentityUser.Age extUser \<noteq> UserSpec.Age (Spec usr))
       \<and> drift (extUser\<lparr>IdentityUser.Password := p\<rparr>) ((Spec usr)\<lparr>UserSpec.Password := q\<rparr>)
            = drift extUser (Spec usr)"
proof (intro conjI impI)
  from getUser_Inr [OF assms(4)] obtain l g where tr: "tr = [EvGet req] @ [EvDo l, EvDo g]"
    and lg: "Method l = ''POST''" "Method g = ''GET''"
      "URL g = baseURL (freshService w) @ ''/users/'' @ UserStatus.ID (Status usr)"
    by blast
  then show "\<exists>l g. tr = [EvGet req, EvDo l, EvDo g] \<and> Method g = ''GET''
             \<and> URL g = baseURL (freshService w) @ ''/users/'' @ UserStatus.ID (Status usr)"
    by auto
  show "drift extUser (Spec usr)" if put: "\<exists>r. EvDo r \<in> set (events (Reconcile w req)) \<and> Method r = ''PUT''"
  proof (rule ccontr)
    assume nd: "\<not> drift extUser (Spec usr)"
    have "events (Reconcile w req) =
        tr @ (if containsString (Finalizers usr) userFinalizer then []
              else [EvUpdate (usr\<lparr>Finalizers := Finalizers usr @ [userFinalizer]\<rparr>)])"
      by (simp add: nodrift_branch [OF assms nd] events_ensureFinalizer)
    with put tr lg show False by (auto split: if_splits)
  qed
next
  assume d: "drift extUser (Spec usr)"
    and g: "GetToken w (freshService w) tr = (Inr t, s1, tr1)"
    and m: "MarshalSpec w (Spec usr) = Inr b"
    and n: "NewRequest w ''PUT'' (baseURL (freshService w) @ ''/users/'' @ IdentityUser.ID extUser) = None"
  from drift_branch_events [OF assms d] obtain rest
    where "events (Reconcile w req) = snd (updateUser w usr extUser tr) @ rest" by blast
  with updateUser_sends [OF g m n]
  show "EvDo \<lparr>Method = ''PUT'', URL = baseURL (freshService w) @ ''/users/'' @ IdentityUser.ID extUser,
                  Header = [(''Authorization'', ''Bearer '' @ t),
                            (''Content-Type'', ''application/json'')],
                  ReqBody = Some b\<rparr> \<in> set (events (Reconcile w req))"
    by simp
next
  show "drift extUser (Spec usr) \<longleftrightarrow>
            IdentityUser.Name extUser \<noteq> UserSpec.Name (Spec usr)
            \<or> IdentityUser.Firstname extUser \<noteq> UserSpec.Firstname (Spec usr)
            \<or> IdentityUser.Lastname extUser \<noteq> UserSpec.Lastname (Spec usr)
            \<or> IdentityUser.Role extUser \<noteq> UserSpec.Role (Spec usr)
            \<or> IdentityUser.Age extUser \<noteq> UserSpec.Age (Spec usr)"
    by (simp add: drift_def)
  show "drift (extUser\<lparr>IdentityUser.Password := p\<rparr>) ((Spec usr)\<lparr>UserSpec.Password := q\<rparr>)
            = drift extUser (Spec usr)"
    by (simp add: drift_def)
qed

lemma ensureFinalizer_durable:
  "(err (ensureFinalizer w usr \<lparr>trace = tr, stored = usr\<rparr>) = None \<longrightarrow>
      durable (ensureFinalizer w usr \<lparr>trace = tr, stored = usr\<rparr>) =
        Some (if containsString (Finalizers usr) userFinalizer then usr
              else usr\<lparr>Finalizers := Finalizers usr @ [userFinalizer]\<rparr>))
   \<and> (err (ensureFinalizer w usr \<lparr>trace = tr, stored = usr\<rparr>) \<noteq> None \<longrightarrow>
      durable (ensureFinalizer w usr \<lparr>trace = tr, stored = usr\<rparr>) = Some usr)"
  by (simp add: ensureFinalizer_def addFinalizer_def Update_def returns_def Let_def
      split: option.splits)

text \<open>
  C3, amended: for a record that is not being deleted and whose \<open>Status.ID\<close> is
  already non-empty when fetched, an invocation that returns success leaves a stored
  record that carries the finalizer marker, with the status and the spec as fetched;
  an invocation that returns an error leaves the stored record as fetched.
\<close>

theorem Reconcile_linked_record_protected:
  assumes "Get w req = Inr usr" and "IsZero (DeletionTimestamp usr)"
    and "UserStatus.ID (Status usr) \<noteq> []"
  shows "(err (Reconcile w req) = None \<longrightarrow>
            (\<exists>u. durable (Reconcile w req) = Some u \<and> containsString (Finalizers u) userFinalizer
                 \<and> Status u = Status usr \<and> Spec u = Spec usr))
       \<and> (err (Reconcile w req) \<noteq> None \<longrightarrow> durable (Reconcile w req) = Some usr)"
proof -
  obtain r tr where g: "getUser w (UserStatus.ID (Status usr)) [EvGet req] = (r, tr)"
    by (cases "getUser w (UserStatus.ID (Status usr)) [EvGet req]") auto
  have fin: "(err (ensureFinalizer w usr \<lparr>trace = tr', stored = usr\<rparr>) = None \<longrightarrow>
      (\<exists>u. durable (ensureFinalizer w usr \<lparr>trace = tr', stored = usr\<rparr>) = Some u
          \<and> containsString (Finalizers u) userFinalizer \<and> Status u = Status usr \<and> Spec u = Spec usr))
   \<and> (err (ensureFinalizer w usr \<lparr>trace = tr', stored = usr\<rparr>) \<noteq> None \<longrightarrow>
      durable (ensureFinalizer w usr \<lparr>trace = tr', stored = usr\<rparr>) = Some usr)" for tr'
    using ensureFinalizer_durable [of w usr tr'] by (auto simp: containsString_append)
  show ?thesis
  proof (cases r)
    case (Inl e)
    with assms g show ?thesis by (simp add: Reconcile_def returns_def Let_def)
  next
    case (Inr extUser)
    with g have g': "getUser w (UserStatus.ID (Status usr)) [EvGet req] = (Inr extUser, tr)" by simp
    show ?thesis
    proof (cases "drift extUser (Spec usr)")
      case False
      from nodrift_branch [OF assms g' False] fin [of tr] show ?thesis by simp
    next
      case True
      obtain r2 tr2 where u: "updateUser w usr extUser tr = (r2, tr2)"
        by (cases "updateUser w usr extUser tr") auto
      show ?thesis
      proof (cases r2)
        case (Inl e)
        with drift_branch_update [OF assms g' True] u show ?thesis by (simp add: returns_def)
      next
        case (Inr u')
        with drift_branch_update [OF assms g' True] u fin [of tr2] show ?thesis by simp
      qed
    qed
  qed
qed
theorem Reconcile_update_iff_drift_witness:
  "Get (okWorld driftedUser) reqKey = Inr driftedUser \<and> IsZero (DeletionTimestamp driftedUser)
   \<and> UserStatus.ID (Status driftedUser) \<noteq> []
   \<and> drift extAlice (Spec driftedUser)
   \<and> EvDo \<lparr>Method = ''PUT'', URL = ''http://127.0.0.1:8080/users/42'',
            Header = [(''Authorization'', ''Bearer tok''), (''Content-Type'', ''application/json'')],
            ReqBody = Some ''{spec}''\<rparr> \<in> set (events (Reconcile (okWorld driftedUser) reqKey))
   \<and> IdentityUser.Password extAlice \<noteq> UserSpec.Password (Spec protectedUser)
   \<and> \<not> drift extAlice (Spec protectedUser)
   \<and> \<not> (\<exists>r. EvDo r \<in> set (events (Reconcile (okWorld protectedUser) reqKey)) \<and> Method r = ''PUT'')"
proof -
  let ?l = "EvDo \<lparr>Method = ''POST'', URL = ''http://127.0.0.1:8080/login'', Header = [],
              ReqBody = Some ''{login}''\<rparr>"
  let ?g = "EvDo \<lparr>Method = ''GET'', URL = ''http://127.0.0.1:8080/users/42'',
              Header = [(''Authorization'', ''Bearer tok''), (''Accept'', ''application/json'')],
              ReqBody = None\<rparr>"
  let ?tr = "[EvGet reqKey, ?l, ?g]"
  have h1: "Get (okWorld driftedUser) reqKey = Inr driftedUser"
    and h1': "Get (okWorld protectedUser) reqKey = Inr protectedUser"
    by (simp_all add: world_defs)
  have h2: "IsZero (DeletionTimestamp driftedUser)" and h2': "IsZero (DeletionTimestamp protectedUser)"
    by (simp_all add: IsZero_def user_defs)
  have h3: "UserStatus.ID (Status driftedUser) \<noteq> []" and h3': "UserStatus.ID (Status protectedUser) \<noteq> []"
    by (simp_all add: user_defs)
  have g: "getUser (okWorld driftedUser) (UserStatus.ID (Status driftedUser)) [EvGet reqKey] = (Inr extAlice, ?tr)"
    and g': "getUser (okWorld protectedUser) (UserStatus.ID (Status protectedUser)) [EvGet reqKey] = (Inr extAlice, ?tr)"
    by (simp_all add: getUser_def world_defs client_defs user_defs Let_def)
  have d: "drift extAlice (Spec driftedUser)" and nd: "\<not> drift extAlice (Spec protectedUser)"
    and pw: "IdentityUser.Password extAlice \<noteq> UserSpec.Password (Spec protectedUser)"
    by (simp_all add: drift_def user_defs)
  have t: "GetToken (okWorld driftedUser) (freshService (okWorld driftedUser)) ?tr
             = (Inr ''tok'', (freshService (okWorld driftedUser))\<lparr>token := ''tok''\<rparr>, ?tr @ [?l])"
    by (simp add: world_defs client_defs Let_def)
  have m: "MarshalSpec (okWorld driftedUser) (Spec driftedUser) = Inr ''{spec}''"
    and n: "NewRequest (okWorld driftedUser) ''PUT''
              (baseURL (freshService (okWorld driftedUser)) @ ''/users/'' @ IdentityUser.ID extAlice) = None"
    and url: "baseURL (freshService (okWorld driftedUser)) @ ''/users/'' @ IdentityUser.ID extAlice
              = ''http://127.0.0.1:8080/users/42''"
    by (simp_all add: world_defs client_defs user_defs)
  note T = Reconcile_update_iff_drift [OF h1 h2 h3 g, where t = "''tok''"
      and ?s1.0 = "(freshService (okWorld driftedUser))\<lparr>token := ''tok''\<rparr>" and ?tr1.0 = "?tr @ [?l]"
      and b = "''{spec}''"]
  have put: "EvDo \<lparr>Method = ''PUT'', URL = ''http://127.0.0.1:8080/users/42'',
            Header = [(''Authorization'', ''Bearer tok''), (''Content-Type'', ''application/json'')],
            ReqBody = Some ''{spec}''\<rparr> \<in> set (events (Reconcile (okWorld driftedUser) reqKey))"
    using T [THEN conjunct2, THEN conjunct2, THEN conjunct1, rule_format, OF d t m n]
    unfolding url by simp
  from Reconcile_update_iff_drift [OF h1' h2' h3' g'] nd
  have noput: "\<not> (\<exists>r. EvDo r \<in> set (events (Reconcile (okWorld protectedUser) reqKey)) \<and> Method r = ''PUT'')"
    by blast
  from h1 h2 h3 d put pw nd noput show ?thesis by simp
qed

theorem Reconcile_linked_record_protected_witness:
  "Get (okWorld createdUser) reqKey = Inr createdUser \<and> IsZero (DeletionTimestamp createdUser)
   \<and> UserStatus.ID (Status createdUser) \<noteq> []
   \<and> err (Reconcile (okWorld createdUser) reqKey) = None
   \<and> durable (Reconcile (okWorld createdUser) reqKey) = Some protectedUser
   \<and> containsString (Finalizers protectedUser) userFinalizer"
proof -
  have h1: "Get (okWorld createdUser) reqKey = Inr createdUser" by (simp add: world_defs)
  have h2: "IsZero (DeletionTimestamp createdUser)" by (simp add: IsZero_def user_defs)
  have h3: "UserStatus.ID (Status createdUser) \<noteq> []" by (simp add: user_defs)
  have ev: "Reconcile (okWorld createdUser) reqKey =
      \<lparr>result = emptyResult, err = None,
       events = [EvGet reqKey,
         EvDo \<lparr>Method = ''POST'', URL = ''http://127.0.0.1:8080/login'', Header = [],
               ReqBody = Some ''{login}''\<rparr>,
         EvDo \<lparr>Method = ''GET'', URL = ''http://127.0.0.1:8080/users/42'',
               Header = [(''Authorization'', ''Bearer tok''), (''Accept'', ''application/json'')],
               ReqBody = None\<rparr>,
         EvUpdate protectedUser],
       durable = Some protectedUser\<rparr>"
    by (simp add: world_defs user_defs client_defs controller_defs Let_def)
  from Reconcile_linked_record_protected [OF h1 h2 h3] ev h1 h2 h3
  show ?thesis by (simp add: user_defs)
qed

text \<open>
  C3, as stated, fails: reconciling a fresh record in a world where every call
  succeeds stores a record whose \<open>Status.ID\<close> is \<open>42\<close> and whose finalizers are empty.
  The only write of the invocation is the status update.
\<close>

theorem finalizer_invariant_counterexample:
  "Get (okWorld freshUser) reqKey = Inr freshUser
   \<and> durable (Reconcile (okWorld freshUser) reqKey) = Some createdUser
   \<and> UserStatus.ID (Status createdUser) = ''42''
   \<and> UserStatus.ID (Status createdUser) \<noteq> []
   \<and> Finalizers createdUser = []
   \<and> \<not> containsString (Finalizers createdUser) userFinalizer
   \<and> filter isWrite (events (Reconcile (okWorld freshUser) reqKey)) = [EvStatusUpdate createdUser]"
  by (simp add: world_defs user_defs client_defs controller_defs Let_def)

end
